theory Spec2Isabelle
  imports Complex_Main
begin

section \<open>Tensors\<close>

text \<open>
  The arrays that \<^verbatim>\<open>cgm.predict\<close> handles have rank three: axis 0 is the example,
  axis 1 the output dimension and axis 2 the sample. A tensor is a list of matrices, one
  per example, and a matrix is a list of rows. The wrapper moves the entries and does no
  arithmetic on them.
\<close>

type_synonym matrix = "real list list"
type_synonym tensor = "matrix list"

definition is_matrix :: "nat \<Rightarrow> nat \<Rightarrow> matrix \<Rightarrow> bool" where
  "is_matrix r c M \<longleftrightarrow> length M = r \<and> list_all (\<lambda>row. length row = c) M"

definition has_shape :: "tensor \<Rightarrow> nat \<times> nat \<times> nat \<Rightarrow> bool" where
  "has_shape T s = (case s of (b, r, c) \<Rightarrow> length T = b \<and> list_all (is_matrix r c) T)"

section \<open>The model wrapper\<close>

subsection \<open>Construction\<close>

text \<open>
  \<^verbatim>\<open>cgm.__init__\<close>, lines 92 to 118, and the two builders it calls. The constructor
  itself validates nothing. An attribute that no branch assigns stays unset: \<open>None\<close>
  below. Calling the unset \<^verbatim>\<open>self._build_model\<close> raises \<^verbatim>\<open>AttributeError\<close>; in either
  builder, a \<open>latent_dist\<close> that matches no branch leaves the local \<^verbatim>\<open>epsilon\<close> unbound,
  and its use in \<^verbatim>\<open>layers.Multiply()([..., epsilon])\<close> raises \<^verbatim>\<open>UnboundLocalError\<close>.

  The builders call Keras, which raises its own exceptions: \<^verbatim>\<open>K.repeat_elements\<close>
  (lines 139 and 217) raises \<^verbatim>\<open>IndexError\<close> for a repetition count below one, and the
  layer constructors raise \<^verbatim>\<open>ValueError\<close> for a dimension they cannot build. Keras is not
  part of the repository, so what it raises is a parameter of the model: \<open>before\<close> is the
  exception, if any, of the Keras calls that precede the latent noise block (lines 125
  to 155, and 197 to 228), and \<open>after\<close> that of the latent noise layer and the calls that
  follow it (lines 158 to 190, and 232 to 269), each as a function of the builder and of
  the numbers the builder reads.
\<close>

datatype py_error =
  AttributeError | UnboundLocalError | ZeroDivisionError | ValueError | IndexError

datatype latent_noise = random_uniform real real | random_normal real real

datatype builder = build_model_t2m | build_model_ws

datatype network = Model builder latent_noise

record cgm =
  dim_out :: int
  dim_in_mean :: int
  dim_in_std :: int
  dim_in_features :: int
  dim_latent :: int
  n_samples_train :: int
  latent_dist :: string
  latent_dist_params :: "(real \<times> real) option"
  self_n_samples :: int
  model :: network

text \<open>The numbers a builder reads from \<open>self\<close>: the five dimensions and \<^verbatim>\<open>self._n_samples\<close>.\<close>

record sizes =
  size_out :: int
  size_in_mean :: int
  size_in_std :: int
  size_in_features :: int
  size_latent :: int
  size_samples :: int

type_synonym keras = "builder \<Rightarrow> sizes \<Rightarrow> py_error option"

text \<open>Lines 102 to 108.\<close>

definition init_latent_dist_params ::
  "string \<Rightarrow> (real \<times> real) option \<Rightarrow> (real \<times> real) option" where
  "init_latent_dist_params ldist params =
     (case params of
        None \<Rightarrow> (if ldist = ''uniform'' then Some (- 1, 1)
                 else if ldist = ''normal'' then Some (0, 1)
                 else None)
      | Some p \<Rightarrow> Some p)"

text \<open>Lines 112 to 115.\<close>

definition init_build_model :: "string \<Rightarrow> builder option" where
  "init_build_model model_type =
     (if model_type = ''t2m'' then Some build_model_t2m
      else if model_type = ''ws'' then Some build_model_ws
      else None)"

text \<open>
  Lines 157 to 166 and 231 to 240, the same code in both builders: the branch on
  \<open>latent_dist\<close>, and the first use of \<^verbatim>\<open>epsilon\<close> after it.
\<close>

definition build_epsilon :: "string \<Rightarrow> (real \<times> real) option \<Rightarrow> py_error + latent_noise" where
  "build_epsilon ldist params =
     (if ldist = ''uniform'' then
        (case params of None \<Rightarrow> Inl AttributeError
         | Some (lo, hi) \<Rightarrow> Inr (random_uniform lo hi))
      else if ldist = ''normal'' then
        (case params of None \<Rightarrow> Inl AttributeError
         | Some (mean, stddev) \<Rightarrow> Inr (random_normal mean stddev))
      else Inl UnboundLocalError)"

text \<open>
  A builder, in the order of its statements: the Keras calls before the latent noise
  block, the block, the Keras calls after it.
\<close>

definition build_model ::
  "keras \<Rightarrow> keras \<Rightarrow> builder \<Rightarrow> sizes \<Rightarrow> string \<Rightarrow> (real \<times> real) option
     \<Rightarrow> py_error + network" where
  "build_model before after b sz ldist params =
     (case before b sz of
        Some e \<Rightarrow> Inl e
      | None \<Rightarrow>
          (case build_epsilon ldist params of
             Inl e \<Rightarrow> Inl e
           | Inr noise \<Rightarrow>
               (case after b sz of
                  Some e \<Rightarrow> Inl e
                | None \<Rightarrow> Inr (Model b noise))))"

definition cgm_init ::
  "keras \<Rightarrow> keras \<Rightarrow> int \<Rightarrow> int \<Rightarrow> int \<Rightarrow> int \<Rightarrow> int \<Rightarrow> int \<Rightarrow> string \<Rightarrow> string
     \<Rightarrow> (real \<times> real) option \<Rightarrow> py_error + cgm" where
  "cgm_init before after d_out d_in_mean d_in_std d_in_features d_latent n_train
       model_type ldist params =
     (let params' = init_latent_dist_params ldist params;
          sz = \<lparr>size_out = d_out, size_in_mean = d_in_mean, size_in_std = d_in_std,
                size_in_features = d_in_features, size_latent = d_latent,
                size_samples = n_train\<rparr>
      in case init_build_model model_type of
           None \<Rightarrow> Inl AttributeError
         | Some b \<Rightarrow>
             (case build_model before after b sz ldist params' of
                Inl e \<Rightarrow> Inl e
              | Inr m \<Rightarrow>
                  Inr \<lparr>dim_out = d_out, dim_in_mean = d_in_mean, dim_in_std = d_in_std,
                       dim_in_features = d_in_features, dim_latent = d_latent,
                       n_samples_train = n_train, latent_dist = ldist,
                       latent_dist_params = params', self_n_samples = n_train,
                       model = m\<rparr>))"

subsection \<open>Prediction\<close>

text \<open>
  \<^verbatim>\<open>cgm.predict\<close>, lines 351 to 354. A forward pass \<^verbatim>\<open>self.model.predict(x_test)\<close> draws
  fresh latent noise, so it is a function of the state of the random generator that
  returns the samples and the new state; \<open>fwd\<close> stands for it. \<^verbatim>\<open>np.int\<close> is Python's
  \<^verbatim>\<open>int\<close> (NumPy before 1.24), and \<^verbatim>\<open>range\<close> of a number below one is empty.
\<close>

fun predict_loop :: "('s \<Rightarrow> tensor \<times> 's) \<Rightarrow> nat \<Rightarrow> tensor list \<Rightarrow> 's \<Rightarrow> tensor list \<times> 's" where
  "predict_loop fwd 0 S s = (S, s)"
| "predict_loop fwd (Suc k) S s = (case fwd s of (T, s') \<Rightarrow> predict_loop fwd k (S @ [T]) s')"

text \<open>\<^verbatim>\<open>np.concatenate(S, axis=2)\<close>; an empty list of arrays raises \<^verbatim>\<open>ValueError\<close>.\<close>

definition concatenate_axis2 :: "tensor list \<Rightarrow> py_error + tensor" where
  "concatenate_axis2 S =
     (case S of [] \<Rightarrow> Inl ValueError
      | T # Ts \<Rightarrow> Inr (foldl (\<lambda>acc U. map2 (map2 (@)) acc U) T Ts))"

text \<open>The slice \<^verbatim>\<open>[:, :, 0:n]\<close>; a negative \<open>n\<close> counts from the end.\<close>

definition slice_axis2 :: "int \<Rightarrow> tensor \<Rightarrow> tensor" where
  "slice_axis2 n T =
     map (map (\<lambda>row. if 0 \<le> n then take (nat n) row else take (length row - nat (- n)) row)) T"

definition predict :: "cgm \<Rightarrow> ('s \<Rightarrow> tensor \<times> 's) \<Rightarrow> int \<Rightarrow> 's \<Rightarrow> (py_error + tensor) \<times> 's" where
  "predict self fwd n_samples s =
     (if self_n_samples self = 0 then (Inl ZeroDivisionError, s)
      else
        (case predict_loop fwd
                (nat \<lceil>real_of_int n_samples / real_of_int (self_n_samples self)\<rceil>) [] s of
           (S, s') \<Rightarrow>
             (case concatenate_axis2 S of
                Inl e \<Rightarrow> (Inl e, s')
              | Inr T \<Rightarrow> (Inr (slice_axis2 n_samples T), s'))))"

text \<open>The outputs of \<open>k\<close> successive forward passes, and the state after them.\<close>

definition state_after :: "('s \<Rightarrow> tensor \<times> 's) \<Rightarrow> nat \<Rightarrow> 's \<Rightarrow> 's" where
  "state_after fwd k s = ((\<lambda>s. snd (fwd s)) ^^ k) s"

definition forward_passes :: "('s \<Rightarrow> tensor \<times> 's) \<Rightarrow> nat \<Rightarrow> 's \<Rightarrow> tensor list" where
  "forward_passes fwd k s = map (\<lambda>i. fst (fwd (state_after fwd i s))) [0..<k]"

section \<open>Properties of the model wrapper\<close>

subsection \<open>Construction\<close>

lemma init_build_model_invalid:
  "model_type \<notin> {''t2m'', ''ws''} \<Longrightarrow> init_build_model model_type = None"
  by (simp add: init_build_model_def)

lemma init_build_model_valid:
  "model_type \<in> {''t2m'', ''ws''} \<Longrightarrow> \<exists>b. init_build_model model_type = Some b"
  by (auto simp: init_build_model_def)

lemma build_epsilon_invalid:
  "ldist \<notin> {''uniform'', ''normal''} \<Longrightarrow> build_epsilon ldist params = Inl UnboundLocalError"
  by (simp add: build_epsilon_def)

lemma build_epsilon_valid:
  assumes "ldist \<in> {''uniform'', ''normal''}"
  shows "\<exists>noise. build_epsilon ldist (init_latent_dist_params ldist params) = Inr noise"
  using assms
  by (auto simp: build_epsilon_def init_latent_dist_params_def split: option.splits)

lemma build_model_invalid:
  assumes "ldist \<notin> {''uniform'', ''normal''}"
  shows "build_model before after b sz ldist params
    = Inl (case before b sz of Some e \<Rightarrow> e | None \<Rightarrow> UnboundLocalError)"
  by (simp add: build_model_def build_epsilon_invalid [OF assms] split: option.split)

text \<open>
  Claim C3. Constructing a \<open>cgm\<close> with a \<open>model_type\<close> outside \<open>t2m\<close>, \<open>ws\<close> or a
  \<open>latent_dist\<close> outside \<open>uniform\<close>, \<open>normal\<close> raises during construction, whatever Keras
  does; no valid configuration is substituted. An unknown \<open>model_type\<close> raises
  \<open>AttributeError\<close> at the call of the builder. Otherwise the builder runs with the
  unknown \<open>latent_dist\<close>: it raises what Keras raises before the latent noise block, if
  anything, and \<open>UnboundLocalError\<close> at the first use of \<^verbatim>\<open>epsilon\<close> if not.
\<close>

theorem cgm_init_invalid_configuration:
  assumes "model_type \<notin> {''t2m'', ''ws''} \<or> ldist \<notin> {''uniform'', ''normal''}"
  shows "cgm_init before after d_out d_in_mean d_in_std d_in_features d_latent n_train
           model_type ldist params
    = Inl (case init_build_model model_type of
             None \<Rightarrow> AttributeError
           | Some b \<Rightarrow>
               (case before b \<lparr>size_out = d_out, size_in_mean = d_in_mean,
                       size_in_std = d_in_std, size_in_features = d_in_features,
                       size_latent = d_latent, size_samples = n_train\<rparr> of
                  Some e \<Rightarrow> e
                | None \<Rightarrow> UnboundLocalError))"
proof (cases "model_type \<in> {''t2m'', ''ws''}")
  case True
  then have l: "ldist \<notin> {''uniform'', ''normal''}"
    using assms by blast
  obtain b where "init_build_model model_type = Some b"
    using init_build_model_valid [OF True] by blast
  then show ?thesis
    by (simp add: cgm_init_def Let_def build_model_invalid [OF l])
next
  case False
  then show ?thesis
    by (simp add: cgm_init_def Let_def init_build_model_invalid)
qed

text \<open>
  The theorem at \<open>model_type = "invalid"\<close>, and at a misspelt \<open>latent_dist\<close>, for the
  sizes of \<^verbatim>\<open>example.py\<close>, where Keras raises nothing.
\<close>

theorem cgm_init_invalid_configuration_witness:
  "''invalid'' \<notin> {''t2m'', ''ws''} \<and>
   cgm_init (\<lambda>b sz. None) (\<lambda>b sz. None) 3 2 2 7 17 50 ''invalid'' ''normal'' None
     = Inl AttributeError \<and>
   ''gaussian'' \<notin> {''uniform'', ''normal''} \<and>
   cgm_init (\<lambda>b sz. None) (\<lambda>b sz. None) 3 2 2 7 17 50 ''ws'' ''gaussian'' None
     = Inl UnboundLocalError"
  using cgm_init_invalid_configuration
      [of "''invalid''" "''normal''" "\<lambda>b sz. None" "\<lambda>b sz. None" 3 2 2 7 17 50 None]
    cgm_init_invalid_configuration
      [of "''ws''" "''gaussian''" "\<lambda>b sz. None" "\<lambda>b sz. None" 3 2 2 7 17 50 None]
  by (simp add: init_build_model_def)

text \<open>
  Claim C4, as amended. Constructing a \<open>cgm\<close> with \<open>n_samples_train = 1\<close> does not raise:
  with a \<open>model_type\<close> and a \<open>latent_dist\<close> the constructor knows, and sizes for which Keras
  builds the layers, construction succeeds and stores \<open>1\<close> as the sample count of a
  forward pass. The constructor has no check of \<open>n_samples_train\<close>.
\<close>

theorem cgm_init_n_samples_train_one:
  assumes "init_build_model model_type = Some b"
    and "ldist \<in> {''uniform'', ''normal''}"
    and "sz = \<lparr>size_out = d_out, size_in_mean = d_in_mean, size_in_std = d_in_std,
               size_in_features = d_in_features, size_latent = d_latent, size_samples = 1\<rparr>"
    and "before b sz = None" and "after b sz = None"
  shows "\<exists>self. cgm_init before after d_out d_in_mean d_in_std d_in_features d_latent 1
                  model_type ldist params = Inr self \<and>
                n_samples_train self = 1 \<and> self_n_samples self = 1"
proof -
  obtain noise where "build_epsilon ldist (init_latent_dist_params ldist params) = Inr noise"
    using build_epsilon_valid [OF assms(2)] by blast
  then have "build_model before after b sz ldist (init_latent_dist_params ldist params)
      = Inr (Model b noise)"
    by (simp add: build_model_def assms(4,5))
  then show ?thesis
    by (simp add: cgm_init_def Let_def assms(1) flip: assms(3))
qed

text \<open>
  The theorem at the configuration of \<^verbatim>\<open>example.py\<close> with \<open>n_samples_train = 1\<close>, where
  Keras raises nothing.
\<close>

theorem cgm_init_n_samples_train_one_witness:
  "init_build_model ''ws'' = Some build_model_ws \<and> ''normal'' \<in> {''uniform'', ''normal''} \<and>
   (\<exists>self. cgm_init (\<lambda>b sz. None) (\<lambda>b sz. None) 3 2 2 7 17 1 ''ws'' ''normal'' None
             = Inr self \<and>
           n_samples_train self = 1 \<and> self_n_samples self = 1)"
proof -
  have b: "init_build_model ''ws'' = Some build_model_ws"
    by (simp add: init_build_model_def)
  have d: "''normal'' \<in> {''uniform'', ''normal''}"
    by simp
  have "\<exists>self. cgm_init (\<lambda>b sz. None) (\<lambda>b sz. None) 3 2 2 7 17 1 ''ws'' ''normal'' None
           = Inr self \<and> n_samples_train self = 1 \<and> self_n_samples self = 1"
    by (rule cgm_init_n_samples_train_one [OF b d refl]) simp_all
  with b d show ?thesis
    by blast
qed

text \<open>
  Claim C4 as first stated: \<open>n_samples_train = 1\<close> raises at construction. In the
  configuration of \<^verbatim>\<open>example.py\<close>, where Keras builds every layer, it does not.
\<close>

theorem cgm_init_n_samples_train_one_counterexample:
  "cgm_init (\<lambda>b sz. None) (\<lambda>b sz. None) 3 2 2 7 17 1 ''ws'' ''normal'' None =
     Inr \<lparr>dim_out = 3, dim_in_mean = 2, dim_in_std = 2, dim_in_features = 7, dim_latent = 17,
          n_samples_train = 1, latent_dist = ''normal'', latent_dist_params = Some (0, 1),
          self_n_samples = 1, model = Model build_model_ws (random_normal 0 1)\<rparr>"
  by (simp add: cgm_init_def init_latent_dist_params_def init_build_model_def build_model_def
      build_epsilon_def)

subsection \<open>Prediction\<close>

lemma state_after_Suc: "state_after fwd (Suc k) s = state_after fwd k (snd (fwd s))"
  unfolding state_after_def funpow_Suc_right by simp

lemma forward_passes_Suc:
  "forward_passes fwd (Suc k) s = fst (fwd s) # forward_passes fwd k (snd (fwd s))"
proof -
  have u: "[0..<Suc k] = 0 # map Suc [0..<k]"
    by (simp add: upt_conv_Cons map_Suc_upt del: upt_Suc)
  have z: "state_after fwd 0 s = s"
    by (simp add: state_after_def)
  show ?thesis
    unfolding forward_passes_def u by (simp add: state_after_Suc z o_def)
qed

lemma predict_loop_passes:
  "predict_loop fwd k S s = (S @ forward_passes fwd k s, state_after fwd k s)"
proof (induction k arbitrary: S s)
  case 0
  then show ?case by (simp add: forward_passes_def state_after_def)
next
  case (Suc k)
  then show ?case
    by (simp add: forward_passes_Suc state_after_Suc split: prod.split)
qed

lemma length_forward_passes: "length (forward_passes fwd k s) = k"
  by (simp add: forward_passes_def)

lemma forward_passes_shape:
  assumes "\<And>s. has_shape (fst (fwd s)) sh"
  shows "list_all (\<lambda>P. has_shape P sh) (forward_passes fwd k s)"
  using assms by (simp add: forward_passes_def list_all_iff)

lemma append_axis2_shape:
  assumes "has_shape T (E, D, m)" and "has_shape U (E, D, n)"
  shows "has_shape (map2 (map2 (@)) T U) (E, D, m + n)"
proof -
  have "is_matrix D (m + n) (map2 (@) A B)" if "is_matrix D m A" "is_matrix D n B" for A B
    using that by (auto simp: is_matrix_def list_all_length)
  then show ?thesis
    using assms by (auto simp: has_shape_def list_all_length)
qed

lemma append_axis2_nth:
  assumes "has_shape T (E, D, m)" and "has_shape U (E, D, n)" and "e < E" and "d < D"
  shows "map2 (map2 (@)) T U ! e ! d = T ! e ! d @ U ! e ! d"
  using assms by (simp add: has_shape_def is_matrix_def list_all_length)

lemma foldl_append_axis2:
  assumes "has_shape T (E, D, m)" and "list_all (\<lambda>P. has_shape P (E, D, n)) Ps"
  shows "has_shape (foldl (\<lambda>acc U. map2 (map2 (@)) acc U) T Ps) (E, D, m + length Ps * n) \<and>
         (\<forall>e<E. \<forall>d<D. foldl (\<lambda>acc U. map2 (map2 (@)) acc U) T Ps ! e ! d
            = T ! e ! d @ concat (map (\<lambda>P. P ! e ! d) Ps))"
  using assms
proof (induction Ps arbitrary: T m)
  case Nil
  then show ?case by simp
next
  case (Cons P Ps)
  have P: "has_shape P (E, D, n)" and Ps: "list_all (\<lambda>P. has_shape P (E, D, n)) Ps"
    using Cons.prems(2) by simp_all
  have s: "has_shape (map2 (map2 (@)) T P) (E, D, m + n)"
    by (rule append_axis2_shape [OF Cons.prems(1) P])
  show ?case
    using Cons.IH [OF s Ps] append_axis2_nth [OF Cons.prems(1) P]
    by (simp add: algebra_simps)
qed

lemma concatenate_axis2_passes:
  assumes "list_all (\<lambda>P. has_shape P (E, D, n)) Ps" and "Ps \<noteq> []"
  shows "\<exists>T. concatenate_axis2 Ps = Inr T \<and> has_shape T (E, D, length Ps * n) \<and>
             (\<forall>e<E. \<forall>d<D. T ! e ! d = concat (map (\<lambda>P. P ! e ! d) Ps))"
proof -
  obtain P Qs where Ps: "Ps = P # Qs"
    using assms(2) by (cases Ps) auto
  then have "has_shape P (E, D, n)" "list_all (\<lambda>P. has_shape P (E, D, n)) Qs"
    using assms(1) by simp_all
  from foldl_append_axis2 [OF this] show ?thesis
    by (simp add: concatenate_axis2_def Ps)
qed

lemma slice_axis2_take: "0 \<le> n \<Longrightarrow> slice_axis2 n T = map (map (take (nat n))) T"
  by (simp add: slice_axis2_def)

lemma slice_axis2_shape:
  assumes "has_shape T (E, D, m)" and "0 \<le> n" and "nat n \<le> m"
  shows "has_shape (slice_axis2 n T) (E, D, nat n)"
  using assms by (auto simp: slice_axis2_take has_shape_def is_matrix_def list_all_iff)

lemma passes_cover:
  fixes n S :: int
  assumes "1 \<le> S" and "1 \<le> n"
  shows "1 \<le> nat \<lceil>real_of_int n / real_of_int S\<rceil>"
    and "nat n \<le> nat \<lceil>real_of_int n / real_of_int S\<rceil> * nat S"
proof -
  let ?k = "\<lceil>real_of_int n / real_of_int S\<rceil>"
  have "0 < real_of_int n / real_of_int S"
    using assms by simp
  then have "0 < ?k"
    by (simp only: zero_less_ceiling)
  then have k: "1 \<le> ?k"
    by linarith
  then show "1 \<le> nat ?k"
    by linarith
  have "real_of_int n = real_of_int n / real_of_int S * real_of_int S"
    using assms(1) by simp
  also have "\<dots> \<le> real_of_int ?k * real_of_int S"
    using assms(1) by (intro mult_right_mono le_of_int_ceiling) simp
  finally have a: "n \<le> ?k * S"
    by (metis of_int_le_iff of_int_mult)
  have "0 \<le> ?k"
    using k by linarith
  then have b: "nat ?k * nat S = nat (?k * S)"
    by (rule nat_mult_distrib [symmetric])
  show "nat n \<le> nat ?k * nat S"
    unfolding b by (rule nat_mono [OF a])
qed


text \<open>
  Claim C2. For \<open>n_samples \<ge> 1\<close> (and \<open>n_samples_train \<ge> 1\<close>), \<open>predict\<close> makes exactly
  \<open>k = \<lceil>n_samples / n_samples_train\<rceil>\<close> forward passes, each from the state the previous
  one left; when every pass yields a tensor of shape
  \<open>(n_examples, dim_out, n_samples_train)\<close>, it concatenates them along the sample axis and
  keeps the first \<open>n_samples\<close> samples, so the result has shape
  \<open>(n_examples, dim_out, n_samples)\<close>.
\<close>

theorem predict_forward_passes:
  assumes "self_n_samples self = S" and "1 \<le> S" and "1 \<le> n"
    and "\<forall>s. has_shape (fst (fwd s)) (E, D, nat S)"
    and "k = nat \<lceil>real_of_int n / real_of_int S\<rceil>"
  shows "predict_loop fwd k [] s = (forward_passes fwd k s, state_after fwd k s) \<and>
         length (forward_passes fwd k s) = k \<and>
         (\<exists>T. concatenate_axis2 (forward_passes fwd k s) = Inr T \<and>
              (\<forall>e<E. \<forall>d<D. T ! e ! d = concat (map (\<lambda>P. P ! e ! d) (forward_passes fwd k s))) \<and>
              predict self fwd n s = (Inr (map (map (take (nat n))) T), state_after fwd k s) \<and>
              has_shape (map (map (take (nat n))) T) (E, D, nat n))"
proof -
  have k: "1 \<le> k" and c: "nat n \<le> k * nat S"
    using passes_cover [OF assms(2,3)] by (simp_all add: assms(5))
  have "list_all (\<lambda>P. has_shape P (E, D, nat S)) (forward_passes fwd k s)"
    by (rule forward_passes_shape) (simp add: assms(4))
  moreover have "forward_passes fwd k s \<noteq> []"
    using k length_forward_passes [of fwd k s] by auto
  ultimately obtain T where T: "concatenate_axis2 (forward_passes fwd k s) = Inr T"
    "has_shape T (E, D, k * nat S)"
    "\<forall>e<E. \<forall>d<D. T ! e ! d = concat (map (\<lambda>P. P ! e ! d) (forward_passes fwd k s))"
    using concatenate_axis2_passes [of E D "nat S" "forward_passes fwd k s"]
    by (auto simp: length_forward_passes)
  have n: "0 \<le> n"
    using assms(3) by simp
  have "predict self fwd n s = (Inr (slice_axis2 n T), state_after fwd k s)"
    using assms(1,2) by (simp add: predict_def predict_loop_passes T(1) flip: assms(5))
  moreover have "has_shape (slice_axis2 n T) (E, D, nat n)"
    by (rule slice_axis2_shape [OF T(2) n c])
  ultimately show ?thesis
    using T(1,3) by (auto simp: slice_axis2_take [OF n] predict_loop_passes length_forward_passes)
qed

text \<open>
  The theorem at \<open>n_samples = 7\<close> and \<open>n_samples_train = 5\<close>, for one example of one output
  dimension. The state counts the forward passes, and every sample of a pass is the
  number of the pass: two passes are made, and the seven samples are the five of the
  first pass and two of the second.
\<close>

theorem predict_forward_passes_witness:
  "(1::int) \<le> 5 \<and> (1::int) \<le> 7 \<and>
   (\<forall>s::nat. has_shape (fst ([[replicate 5 (real s)]], Suc s)) (1, 1, nat 5)) \<and>
   nat \<lceil>real_of_int 7 / real_of_int 5\<rceil> = 2 \<and>
   predict \<lparr>dim_out = 1, dim_in_mean = 2, dim_in_std = 2, dim_in_features = 7, dim_latent = 17,
           n_samples_train = 5, latent_dist = ''normal'', latent_dist_params = Some (0, 1),
           self_n_samples = 5, model = Model build_model_ws (random_normal 0 1)\<rparr>
     (\<lambda>s. ([[replicate 5 (real s)]], Suc s)) 7 (0::nat)
   = (Inr [[[0, 0, 0, 0, 0, 1, 1]]], 2)"
proof -
  let ?self = "\<lparr>dim_out = 1, dim_in_mean = 2, dim_in_std = 2, dim_in_features = 7,
    dim_latent = 17, n_samples_train = 5, latent_dist = ''normal'',
    latent_dist_params = Some (0, 1), self_n_samples = 5,
    model = Model build_model_ws (random_normal 0 1)\<rparr>"
  let ?fwd = "\<lambda>s::nat. ([[replicate 5 (real s)]], Suc s)"
  have sh: "\<forall>s::nat. has_shape (fst (?fwd s)) (1, 1, nat 5)"
    by (simp add: has_shape_def is_matrix_def)
  have k: "nat \<lceil>real_of_int 7 / real_of_int 5\<rceil> = 2"
    by simp
  have p: "forward_passes ?fwd 2 0 = [[[[0, 0, 0, 0, 0]]], [[[1, 1, 1, 1, 1]]]]"
    by (simp add: forward_passes_def state_after_def upt_conv_Cons numeral_2_eq_2
        eval_nat_numeral)
  have st: "state_after ?fwd 2 0 = 2"
    by (simp add: state_after_def numeral_2_eq_2)
  obtain T where "concatenate_axis2 (forward_passes ?fwd 2 0) = Inr T"
    and "predict ?self ?fwd 7 0 = (Inr (map (map (take (nat 7))) T), state_after ?fwd 2 0)"
    using predict_forward_passes [of ?self 5 7 ?fwd 1 1 2 0] sh by auto
  then have "predict ?self ?fwd 7 0 = (Inr [[[0, 0, 0, 0, 0, 1, 1]]], 2)"
    by (auto simp: p st concatenate_axis2_def)
  with sh k show ?thesis
    by simp
qed

end
